theory Spec2Isabelle
  imports Complex_Main
begin

section \<open>JavaScript values, thrown values and HTTP responses\<close>

text \<open>
  Values that travel as JSON between the two services, and the value \<open>undefined\<close> that
  a missing property reads as. A JSON number is a finite double, hence a rational; the
  handlers only copy numbers, they never compute with them.
\<close>

datatype jsval =
    JUndefined
  | JNull
  | JBool bool
  | JNum rat
  | JStr string
  | JArr "jsval list"
  | JObj "(string \<times> jsval) list"

text \<open>JavaScript truthiness, as used by \<^verbatim>\<open>!user\<close> and \<^verbatim>\<open>a || b\<close>.\<close>

fun truthy :: "jsval \<Rightarrow> bool" where
  "truthy JUndefined = False"
| "truthy JNull = False"
| "truthy (JBool b) = b"
| "truthy (JNum n) = (n \<noteq> 0)"
| "truthy (JStr s) = (s \<noteq> [])"
| "truthy (JArr xs) = True"
| "truthy (JObj kvs) = True"

definition js_or :: "jsval \<Rightarrow> jsval \<Rightarrow> jsval" where
  "js_or a b = (if truthy a then a else b)"

text \<open>An Express response \<^verbatim>\<open>res.status(n).json(v)\<close>; axios reads \<open>body\<close> as \<^verbatim>\<open>response.data\<close>.\<close>

record Response =
  status :: nat
  body :: jsval

text \<open>
  What a \<^verbatim>\<open>throw\<close> or a rejected promise carries: an instance of \<^verbatim>\<open>Error\<close> with its
  message (a \<^verbatim>\<open>TypeError\<close> of the runtime, an axios error with the response that caused
  it, if any), or any other value.
\<close>

datatype thrown =
    TypeError string
  | AxiosError string "Response option"
  | NonError jsval

text \<open>
  Reading the property \<^verbatim>\<open>.data\<close> of a value: a \<^verbatim>\<open>TypeError\<close> on \<open>null\<close> and
  \<open>undefined\<close>, the member of an object (the first binding of the key), and
  \<open>undefined\<close> on every other value, none of which has a property of that name.
\<close>

fun member_data :: "jsval \<Rightarrow> thrown + jsval" where
  "member_data JUndefined = Inl (TypeError ''Cannot read properties of undefined'')"
| "member_data JNull = Inl (TypeError ''Cannot read properties of null'')"
| "member_data (JObj kvs) = Inr (case map_of kvs ''data'' of None \<Rightarrow> JUndefined | Some v \<Rightarrow> v)"
| "member_data v = Inr JUndefined"

section \<open>Shared package: types, generateId, formatError\<close>

record User =
  id_User :: string
  name :: string
  email :: string

text \<open>
  The fields that \<^verbatim>\<open>createOrder\<close> takes from the request body, at the types of the
  \<^verbatim>\<open>Order\<close> interface they are assigned to; an \<^verbatim>\<open>Order\<close> adds the generated \<^verbatim>\<open>id\<close>.
\<close>

record OrderInput =
  userId :: string
  product :: string
  quantity :: rat
  total :: rat

record Order = OrderInput +
  id_Order :: string

definition User_json :: "User \<Rightarrow> jsval" where
  "User_json u =
     JObj [(''id'', JStr (id_User u)), (''name'', JStr (name u)), (''email'', JStr (email u))]"

definition Order_json :: "Order \<Rightarrow> jsval" where
  "Order_json order =
     JObj [(''id'', JStr (id_Order order)), (''userId'', JStr (userId order)),
           (''product'', JStr (product order)), (''quantity'', JNum (quantity order)),
           (''total'', JNum (total order))]"

text \<open>
  \<^verbatim>\<open>String.prototype.substring(start, end)\<close>: both indices are clamped to the length,
  swapped when out of order, and the characters from the smaller index up to the
  larger one (excluded) are returned.
\<close>

definition substring :: "string \<Rightarrow> nat \<Rightarrow> nat \<Rightarrow> string" where
  "substring s start fin =
     (let a = min start (length s); b = min fin (length s)
      in take (max a b - min a b) (drop (min a b) s))"

text \<open>
  \<^verbatim>\<open>generateId\<close> is \<^verbatim>\<open>Math.random().toString(36).substring(2, 15)\<close>. The random draw and
  its rendering in radix 36 belong to the runtime: the argument \<open>rnd\<close> is the string
  \<^verbatim>\<open>Math.random().toString(36)\<close> of the call. For a number in the interval from 0
  (included) to 1 (excluded) that string is \<open>0\<close>, or \<open>0.\<close> followed by digits of
  radix 36; \<open>radix36_fraction\<close> says so.
\<close>

definition base36_digit :: "char \<Rightarrow> bool" where
  "base36_digit c = (c \<in> set ''0123456789abcdefghijklmnopqrstuvwxyz'')"

definition radix36_fraction :: "string \<Rightarrow> bool" where
  "radix36_fraction s =
     (s = ''0'' \<or> (take 2 s = ''0.'' \<and> drop 2 s \<noteq> [] \<and> list_all base36_digit (drop 2 s)))"

definition generateId :: "string \<Rightarrow> string" where
  "generateId rnd = substring rnd 2 15"

text \<open>
  \<^verbatim>\<open>formatError\<close>: the message of an \<^verbatim>\<open>Error\<close> instance, \<^verbatim>\<open>String(error)\<close> of anything
  else. \<^verbatim>\<open>String\<close> is the runtime's conversion, taken as the parameter \<open>String_js\<close>.
\<close>

definition formatError :: "(jsval \<Rightarrow> string) \<Rightarrow> thrown \<Rightarrow> string" where
  "formatError String_js error =
     (case error of
        TypeError message \<Rightarrow> message
      | AxiosError message response \<Rightarrow> message
      | NonError v \<Rightarrow> String_js v)"

section \<open>The HTTP client (axios)\<close>

text \<open>
  What happens to a request on the wire: a response arrives, the connection fails, or
  nothing arrives within the client's timeout.
\<close>

datatype wire = Replied Response | NetworkError | Timeout

fun decimal :: "nat \<Rightarrow> string" where
  "decimal n =
     (if n < 10 then [char_of (48 + n)]
      else decimal (n div 10) @ [char_of (48 + n mod 10)])"

declare decimal.simps [simp del]

text \<open>
  \<^verbatim>\<open>await httpClient.get(url)\<close> for an instance made by \<^verbatim>\<open>createHttpClient\<close>, which sets a
  base URL, the timeout (3000 ms unless given) and a header, and leaves axios's status
  validation at its default: the promise resolves with the response when the status is
  2xx and rejects otherwise. \<open>net\<close> is the network as the instance sees it, from the URL
  passed to \<^verbatim>\<open>get\<close> to what happens on the wire.
\<close>

definition httpClient_get :: "(string \<Rightarrow> wire) \<Rightarrow> string \<Rightarrow> thrown + Response" where
  "httpClient_get net url =
     (case net url of
        Replied r \<Rightarrow>
          if 200 \<le> status r \<and> status r < 300 then Inr r
          else Inl (AxiosError (''Request failed with status code '' @ decimal (status r)) (Some r))
      | NetworkError \<Rightarrow> Inl (AxiosError ''Network Error'' None)
      | Timeout \<Rightarrow> Inl (AxiosError ''timeout of 3000ms exceeded'' None))"

section \<open>User service (monorepo): user.controller.ts\<close>

definition users :: "User list" where
  "users =
     [\<lparr>id_User = ''1'', name = ''John Doe'', email = ''john@example.com''\<rparr>,
      \<lparr>id_User = ''2'', name = ''Jane Smith'', email = ''jane@example.com''\<rparr>]"

text \<open>
  A handler is a function of its module's array. It returns \<open>Inr\<close> of the array after
  the call and the response it sent, or \<open>Inl\<close> of what it threw: the exception leaves
  the handler and no response was sent by it. \<^verbatim>\<open>res.json\<close> without \<^verbatim>\<open>res.status\<close>
  answers 200.
\<close>

definition getUsers :: "User list \<Rightarrow> thrown + User list \<times> Response" where
  "getUsers us =
     Inr (us, \<lparr>status = 200,
               body = JObj [(''success'', JBool True), (''data'', JArr (map User_json us))]\<rparr>)"

definition getUserById_controller :: "User list \<Rightarrow> string \<Rightarrow> thrown + User list \<times> Response" where
  "getUserById_controller us i =
     (case find (\<lambda>u. id_User u = i) us of
        None \<Rightarrow>
          Inr (us, \<lparr>status = 404,
                    body = JObj [(''success'', JBool False), (''error'', JStr ''User not found'')]\<rparr>)
      | Some user \<Rightarrow>
          Inr (us, \<lparr>status = 200,
                    body = JObj [(''success'', JBool True), (''data'', User_json user)]\<rparr>))"

section \<open>Order service (monorepo)\<close>

subsection \<open>services/user.service.ts\<close>

text \<open>
  \<open>http\<close> is the awaited outcome of \<^verbatim>\<open>httpClient.get\<close> at a URL: \<open>Inr\<close> of the response
  when the promise resolves, \<open>Inl\<close> of the error when it rejects. The body of the
  \<^verbatim>\<open>try\<close> is \<open>getUserById_try\<close>; the \<^verbatim>\<open>catch\<close> turns whatever it threw into \<open>null\<close>.
\<close>

definition getUserById_try :: "(string \<Rightarrow> thrown + Response) \<Rightarrow> string \<Rightarrow> thrown + jsval" where
  "getUserById_try http userId' =
     (case http (''/users/'' @ userId') of
        Inl e \<Rightarrow> Inl e
      | Inr response \<Rightarrow>
          (case member_data (body response) of
             Inl e \<Rightarrow> Inl e
           | Inr d \<Rightarrow> Inr (js_or d JNull)))"

definition getUserById_service :: "(string \<Rightarrow> thrown + Response) \<Rightarrow> string \<Rightarrow> thrown + jsval" where
  "getUserById_service http userId' =
     (case getUserById_try http userId' of
        Inl error \<Rightarrow> Inr JNull
      | Inr user \<Rightarrow> Inr user)"

subsection \<open>controllers/order.controller.ts\<close>

definition getOrders :: "Order list \<Rightarrow> thrown + Order list \<times> Response" where
  "getOrders orders =
     Inr (orders, \<lparr>status = 200,
                   body = JObj [(''success'', JBool True), (''data'', JArr (map Order_json orders))]\<rparr>)"

text \<open>
  The body of the \<^verbatim>\<open>try\<close> in \<^verbatim>\<open>createOrder\<close>. \<open>req_body\<close> is \<open>None\<close> when \<^verbatim>\<open>req.body\<close> is
  undefined, where the destructuring throws. Everything that can throw comes before
  \<^verbatim>\<open>orders.push\<close>, so the \<^verbatim>\<open>catch\<close> sees the array as it was.
\<close>

definition createOrder_try ::
  "(string \<Rightarrow> thrown + Response) \<Rightarrow> string \<Rightarrow> Order list \<Rightarrow> OrderInput option
     \<Rightarrow> thrown + Order list \<times> Response" where
  "createOrder_try http rnd orders req_body =
     (case req_body of
        None \<Rightarrow> Inl (TypeError ''Cannot destructure property userId of req.body'')
      | Some b \<Rightarrow>
          (case getUserById_service http (userId b) of
             Inl e \<Rightarrow> Inl e
           | Inr user \<Rightarrow>
               if \<not> truthy user then
                 Inr (orders,
                      \<lparr>status = 404,
                       body = JObj [(''success'', JBool False), (''error'', JStr ''User not found'')]\<rparr>)
               else
                 let order = \<lparr>userId = userId b, product = product b, quantity = quantity b,
                              total = total b, id_Order = generateId rnd\<rparr>
                 in Inr (orders @ [order],
                         \<lparr>status = 201,
                          body = JObj [(''success'', JBool True), (''data'', Order_json order)]\<rparr>)))"

definition createOrder ::
  "(string \<Rightarrow> thrown + Response) \<Rightarrow> string \<Rightarrow> Order list \<Rightarrow> OrderInput option
     \<Rightarrow> thrown + Order list \<times> Response" where
  "createOrder http rnd orders req_body =
     (case createOrder_try http rnd orders req_body of
        Inl error \<Rightarrow>
          Inr (orders,
               \<lparr>status = 500,
                body = JObj [(''success'', JBool False), (''error'', JStr ''Failed to create order'')]\<rparr>)
      | Inr r \<Rightarrow> Inr r)"

subsection \<open>middleware/error.middleware.ts\<close>

definition errorHandler :: "(jsval \<Rightarrow> string) \<Rightarrow> thrown \<Rightarrow> Response" where
  "errorHandler String_js err =
     \<lparr>status = 500,
      body = JObj [(''success'', JBool False), (''error'', JStr (formatError String_js err))]\<rparr>"

section \<open>Order service (plain variant)\<close>

text \<open>
  \<^verbatim>\<open>env.USER_SERVICE_URL\<close> is \<^verbatim>\<open>process.env.USER_SERVICE_URL || "http://localhost:4001"\<close>:
  the default stands in for an unset and for an empty variable.
\<close>

definition USER_SERVICE_URL :: "string option \<Rightarrow> string" where
  "USER_SERVICE_URL var =
     (case var of
        None \<Rightarrow> ''http://localhost:4001''
      | Some u \<Rightarrow> if u = [] then ''http://localhost:4001'' else u)"

text \<open>The lookup client of the plain variant has no \<^verbatim>\<open>try\<close>: a rejection is passed on.\<close>

definition getUserById_plain ::
  "(string \<Rightarrow> thrown + Response) \<Rightarrow> string option \<Rightarrow> string \<Rightarrow> thrown + jsval" where
  "getUserById_plain http var i =
     (case http (USER_SERVICE_URL var @ ''/api/users/'' @ i) of
        Inl e \<Rightarrow> Inl e
      | Inr response \<Rightarrow> Inr (body response))"

text \<open>The plain variant keeps no array of orders: its only handler has no state.\<close>

definition getOrder ::
  "(string \<Rightarrow> thrown + Response) \<Rightarrow> string option \<Rightarrow> string \<Rightarrow> thrown + Response" where
  "getOrder http var orderId =
     (case getUserById_plain http var ''1'' of
        Inl e \<Rightarrow> Inl e
      | Inr user \<Rightarrow>
          Inr \<lparr>status = 200,
               body = JObj [(''orderId'', JStr orderId), (''product'', JStr ''Laptop''),
                            (''user'', user)]\<rparr>)"

text \<open>
  The plain variant's user service: the handler passes on \<^verbatim>\<open>getUser\<close>, a service
  function that is not among the sources and is taken as a parameter.
\<close>

definition getUserById_plain_controller ::
  "(string \<Rightarrow> thrown + jsval) \<Rightarrow> string \<Rightarrow> thrown + Response" where
  "getUserById_plain_controller getUser i =
     (case getUser i of
        Inl e \<Rightarrow> Inl e
      | Inr user \<Rightarrow> Inr \<lparr>status = 200, body = user\<rparr>)"

section \<open>The user service as the order service reaches it\<close>

text \<open>
  \<^verbatim>\<open>server.ts\<close> mounts \<^verbatim>\<open>userRouter\<close> at \<^verbatim>\<open>/users\<close>, and \<^verbatim>\<open>user.routes.ts\<close> routes
  \<^verbatim>\<open>GET /\<close> to \<^verbatim>\<open>getUsers\<close> and \<^verbatim>\<open>GET /:id\<close> to \<^verbatim>\<open>getUserById\<close>. The matching is
  Express's; it is written out for the URLs whose path under the mount is empty, a
  single slash, or a slash and one segment of letters, digits, \<open>-\<close> and \<open>_\<close>, where no
  decoding and no query string is involved. Every other URL is left out (\<open>None\<close>).
\<close>

definition plain_segment :: "string \<Rightarrow> bool" where
  "plain_segment seg =
     (seg \<noteq> [] \<and>
      list_all
        (\<lambda>c. c \<in> set ''0123456789abcdefghijklmnopqrstuvwxyzABCDEFGHIJKLMNOPQRSTUVWXYZ-_'')
        seg)"

definition userRouter_GET ::
  "User list \<Rightarrow> string \<Rightarrow> (thrown + User list \<times> Response) option" where
  "userRouter_GET us url =
     (if url = ''/users'' \<or> url = ''/users/'' then Some (getUsers us)
      else if take 7 url = ''/users/'' \<and> plain_segment (drop 7 url) then
        Some (getUserById_controller us (drop 7 url))
      else None)"

text \<open>On the network \<open>net\<close>, the request for \<open>url\<close> is answered by the user service.\<close>

definition user_service_answers :: "User list \<Rightarrow> (string \<Rightarrow> wire) \<Rightarrow> string \<Rightarrow> bool" where
  "user_service_answers us net url =
     (case userRouter_GET us url of
        Some (Inr (us', r)) \<Rightarrow> net url = Replied r
      | Some (Inl e) \<Rightarrow> False
      | None \<Rightarrow> False)"

section \<open>Both services as one state, and repeated requests\<close>

text \<open>
  The observable state of the two services is the pair of the users array and the
  orders array. \<open>lookup\<close> is the order service's lookup of a user carried out against
  the user service: the lookup endpoint handles the request and the client reads the
  reply. \<open>run_n n h\<close> makes the request \<open>h\<close> \<open>n\<close> times in a row and collects the results.
\<close>

definition GET_users_id ::
  "string \<Rightarrow> User list \<times> Order list \<Rightarrow> thrown + (User list \<times> Order list) \<times> Response" where
  "GET_users_id i s =
     (case getUserById_controller (fst s) i of
        Inl e \<Rightarrow> Inl e
      | Inr (us', r) \<Rightarrow> Inr ((us', snd s), r))"

definition GET_users ::
  "User list \<times> Order list \<Rightarrow> thrown + (User list \<times> Order list) \<times> Response" where
  "GET_users s =
     (case getUsers (fst s) of
        Inl e \<Rightarrow> Inl e
      | Inr (us', r) \<Rightarrow> Inr ((us', snd s), r))"

definition GET_orders ::
  "User list \<times> Order list \<Rightarrow> thrown + (User list \<times> Order list) \<times> Response" where
  "GET_orders s =
     (case getOrders (snd s) of
        Inl e \<Rightarrow> Inl e
      | Inr (orders', r) \<Rightarrow> Inr ((fst s, orders'), r))"

definition lookup ::
  "string \<Rightarrow> User list \<times> Order list \<Rightarrow> thrown + (User list \<times> Order list) \<times> jsval" where
  "lookup i s =
     (case GET_users_id i s of
        Inl e \<Rightarrow> Inl e
      | Inr (s', r) \<Rightarrow>
          (case getUserById_service (httpClient_get (\<lambda>url. Replied r)) i of
             Inl e \<Rightarrow> Inl e
           | Inr v \<Rightarrow> Inr (s', v)))"

fun run_n :: "nat \<Rightarrow> ('s \<Rightarrow> thrown + 's \<times> 'r) \<Rightarrow> 's \<Rightarrow> thrown + 's \<times> 'r list" where
  "run_n 0 h s = Inr (s, [])"
| "run_n (Suc n) h s =
     (case h s of
        Inl e \<Rightarrow> Inl e
      | Inr (s', r) \<Rightarrow>
          (case run_n n h s' of
             Inl e \<Rightarrow> Inl e
           | Inr (s'', rs) \<Rightarrow> Inr (s'', r # rs)))"

section \<open>Properties named by the specification\<close>

text \<open>
  The data model's constraints on an order: the quantity is an integer above 0 and the
  total is at least 0.
\<close>

definition order_valid :: "'a OrderInput_scheme \<Rightarrow> bool" where
  "order_valid order =
     (quantity order = of_int \<lfloor>quantity order\<rfloor> \<and> 0 < quantity order \<and> 0 \<le> total order)"

text \<open>
  The data payload that the HTTP call brought: the \<^verbatim>\<open>data\<close> member of the body of
  the response that the awaited call resolved with, if that body is an object that has
  one. A rejected call brings none.
\<close>

definition data_payload :: "thrown + Response \<Rightarrow> jsval option" where
  "data_payload outcome =
     (case outcome of
        Inl e \<Rightarrow> None
      | Inr response \<Rightarrow> (case body response of JObj kvs \<Rightarrow> map_of kvs ''data'' | _ \<Rightarrow> None))"

section \<open>Networks and request bodies of the examples\<close>

definition net_down :: "string \<Rightarrow> wire" where
  "net_down url = NetworkError"

definition net_timeout :: "string \<Rightarrow> wire" where
  "net_timeout url = Timeout"

definition net_503 :: "string \<Rightarrow> wire" where
  "net_503 url = Replied \<lparr>status = 503, body = JStr ''Service Unavailable''\<rparr>"

text \<open>
  The network on which the user service answers every URL its routes are written out
  for, and on which nothing else is reachable.
\<close>

definition user_service_net :: "User list \<Rightarrow> string \<Rightarrow> wire" where
  "user_service_net us url =
     (case userRouter_GET us url of
        Some (Inr (us', r)) \<Rightarrow> Replied r
      | Some (Inl e) \<Rightarrow> NetworkError
      | None \<Rightarrow> NetworkError)"

definition laptop :: OrderInput where
  "laptop = \<lparr>userId = ''1'', product = ''Laptop'', quantity = 1, total = 999\<rparr>"

section \<open>Auxiliary facts\<close>

lemma getUserById_service_returns: "\<exists>v. getUserById_service http i = Inr v"
  by (simp add: getUserById_service_def split: sum.splits)

lemma userRouter_GET_segment:
  "plain_segment i \<Longrightarrow> userRouter_GET us (''/users/'' @ i) = Some (getUserById_controller us i)"
  by (simp add: userRouter_GET_def plain_segment_def)

lemma lookup_absent:
  assumes "plain_segment i"
    and "find (\<lambda>u. id_User u = i) us = None"
    and "user_service_answers us net (''/users/'' @ i)"
  shows "getUserById_service (httpClient_get net) i = Inr JNull"
  using assms(2,3)
  unfolding user_service_answers_def userRouter_GET_segment [OF assms(1)]
  by (simp add: getUserById_controller_def getUserById_service_def getUserById_try_def
      httpClient_get_def)

lemma lookup_present:
  assumes "plain_segment i"
    and "find (\<lambda>u. id_User u = i) us = Some u"
    and "user_service_answers us net (''/users/'' @ i)"
  shows "getUserById_service (httpClient_get net) i = Inr (User_json u)"
  using assms(2,3)
  unfolding user_service_answers_def userRouter_GET_segment [OF assms(1)]
  by (simp add: getUserById_controller_def getUserById_service_def getUserById_try_def
      httpClient_get_def js_or_def User_json_def)

text \<open>
  A user that the lookup endpoint does not find is answered 404 by \<^verbatim>\<open>createOrder\<close>, and
  no order is stored, when the identifier is a plain segment.
\<close>

lemma createOrder_unknown_user:
  assumes "plain_segment (userId b)"
    and "find (\<lambda>u. id_User u = userId b) us = None"
    and "user_service_answers us net (''/users/'' @ userId b)"
  shows "createOrder (httpClient_get net) rnd orders (Some b) =
     Inr (orders,
          \<lparr>status = 404,
           body = JObj [(''success'', JBool False), (''error'', JStr ''User not found'')]\<rparr>)"
  using lookup_absent [OF assms]
  by (simp add: createOrder_def createOrder_try_def)

lemma createOrder_cases:
  "createOrder http rnd orders req_body = Inr (orders', r) \<Longrightarrow>
     orders' = orders \<or>
     (\<exists>b. req_body = Some b \<and>
        orders' = orders @ [\<lparr>userId = userId b, product = product b, quantity = quantity b,
                              total = total b, id_Order = generateId rnd\<rparr>])"
  by (auto simp add: createOrder_def createOrder_try_def Let_def
      split: sum.splits option.splits if_splits)

lemma run_n_pure: "h s = Inr (s, r) \<Longrightarrow> run_n n h s = Inr (s, replicate n r)"
  by (induction n) simp_all

lemma GET_users_id_pure: "\<exists>r. GET_users_id i s = Inr (s, r)"
  by (simp add: GET_users_id_def getUserById_controller_def split: option.splits)

lemma GET_orders_pure: "\<exists>r. GET_orders s = Inr (s, r)"
  by (simp add: GET_orders_def getOrders_def)

lemma GET_users_pure: "\<exists>r. GET_users s = Inr (s, r)"
  by (simp add: GET_users_def getUsers_def)

lemma lookup_pure: "\<exists>v. lookup i s = Inr (s, v)"
proof -
  obtain r where r: "GET_users_id i s = Inr (s, r)"
    using GET_users_id_pure by blast
  obtain v where "getUserById_service (httpClient_get (\<lambda>url. Replied r)) i = Inr v"
    using getUserById_service_returns by blast
  with r show ?thesis by (simp add: lookup_def)
qed

lemma generateId_take_drop: "generateId rnd = take 13 (drop 2 rnd)"
proof (cases "length rnd \<le> 15")
  case True
  then show ?thesis
    by (cases "length rnd < 2") (simp_all add: generateId_def substring_def Let_def min_def max_def)
next
  case False
  then show ?thesis
    by (simp add: generateId_def substring_def Let_def min_def max_def)
qed

lemma list_all_take: "list_all P xs \<Longrightarrow> list_all P (take n xs)"
  by (auto simp add: list_all_iff dest: in_set_takeD)

lemma seed_lookup_1:
  "getUserById_service (httpClient_get (user_service_net users)) ''1'' =
     Inr (JObj [(''id'', JStr ''1''), (''name'', JStr ''John Doe''),
                (''email'', JStr ''john@example.com'')])"
  by (simp add: getUserById_service_def getUserById_try_def httpClient_get_def
      user_service_net_def userRouter_GET_def plain_segment_def getUserById_controller_def
      users_def User_json_def js_or_def)

section \<open>Order creation when the user service is unreachable\<close>

text \<open>
  C1. When the lookup fails at the transport level, \<^verbatim>\<open>createOrder\<close> should store no order
  and answer with a dependency failure that differs from the 404 "User not found".
  The code stores no order, but its answer is that very 404: on a network error, on a
  timeout and on a 503 reply alike.
\<close>

theorem createOrder_unreachable_is_not_found:
  "createOrder (httpClient_get net_down) rnd orders (Some b) =
     Inr (orders,
          \<lparr>status = 404,
           body = JObj [(''success'', JBool False), (''error'', JStr ''User not found'')]\<rparr>)
   \<and> createOrder (httpClient_get net_timeout) rnd orders (Some b) =
     Inr (orders,
          \<lparr>status = 404,
           body = JObj [(''success'', JBool False), (''error'', JStr ''User not found'')]\<rparr>)
   \<and> createOrder (httpClient_get net_503) rnd orders (Some b) =
     Inr (orders,
          \<lparr>status = 404,
           body = JObj [(''success'', JBool False), (''error'', JStr ''User not found'')]\<rparr>)"
  by (simp add: createOrder_def createOrder_try_def getUserById_service_def getUserById_try_def
      httpClient_get_def net_down_def net_timeout_def net_503_def)

section \<open>Order creation for a user that does not exist\<close>

text \<open>
  C2. An order for a \<^verbatim>\<open>userId\<close> that is not in the user directory should be answered 404
  and leave the orders as they were. With the empty \<^verbatim>\<open>userId\<close>, which no seed user has,
  the lookup requests \<^verbatim>\<open>/users/\<close>, the route of \<^verbatim>\<open>getUsers\<close>; the list it answers with is
  a truthy \<^verbatim>\<open>data\<close>, and \<^verbatim>\<open>createOrder\<close> stores the order and answers 201.
\<close>

theorem createOrder_empty_userId:
  "find (\<lambda>u. id_User u = []) users = None
   \<and> user_service_answers users (user_service_net users) ''/users/''
   \<and> createOrder (httpClient_get (user_service_net users)) ''0.4fzyo82mvyr'' []
        (Some \<lparr>userId = [], product = ''Laptop'', quantity = 1, total = 999\<rparr>) =
      Inr ([\<lparr>userId = [], product = ''Laptop'', quantity = 1, total = 999,
             id_Order = ''4fzyo82mvyr''\<rparr>],
           \<lparr>status = 201,
            body = JObj [(''success'', JBool True),
                         (''data'', JObj [(''id'', JStr ''4fzyo82mvyr''), (''userId'', JStr []),
                                          (''product'', JStr ''Laptop''), (''quantity'', JNum 1),
                                          (''total'', JNum 999)])]\<rparr>)"
  by (simp add: createOrder_def createOrder_try_def getUserById_service_def getUserById_try_def
      httpClient_get_def user_service_net_def user_service_answers_def userRouter_GET_def
      getUsers_def users_def js_or_def generateId_take_drop Order_json_def Let_def)

section \<open>Order creation for a user that exists\<close>

text \<open>
  C3, as amended. When the \<^verbatim>\<open>userId\<close> of the request is a plain segment, a user of the
  directory has it and the user service answers the lookup, \<^verbatim>\<open>createOrder\<close> answers 201
  with an order that has the request's \<^verbatim>\<open>userId\<close>, \<^verbatim>\<open>product\<close>, \<^verbatim>\<open>quantity\<close> and \<^verbatim>\<open>total\<close>,
  and stores that order last. Its \<^verbatim>\<open>id\<close> is what \<^verbatim>\<open>generateId\<close> makes of the call's random
  draw; nothing compares it with the ids already stored.
\<close>

theorem createOrder_existing_user:
  assumes "plain_segment (userId b)"
    and "find (\<lambda>u. id_User u = userId b) us = Some u"
    and "user_service_answers us net (''/users/'' @ userId b)"
  shows "createOrder (httpClient_get net) rnd orders (Some b) =
     Inr (orders @ [\<lparr>userId = userId b, product = product b, quantity = quantity b,
                     total = total b, id_Order = generateId rnd\<rparr>],
          \<lparr>status = 201,
           body = JObj [(''success'', JBool True),
                        (''data'', JObj [(''id'', JStr (generateId rnd)),
                                         (''userId'', JStr (userId b)),
                                         (''product'', JStr (product b)),
                                         (''quantity'', JNum (quantity b)),
                                         (''total'', JNum (total b))])]\<rparr>)"
  using lookup_present [OF assms]
  by (simp add: createOrder_def createOrder_try_def User_json_def Order_json_def Let_def)

theorem createOrder_existing_user_witness:
  "plain_segment ''1''
   \<and> find (\<lambda>u. id_User u = ''1'') users =
       Some \<lparr>id_User = ''1'', name = ''John Doe'', email = ''john@example.com''\<rparr>
   \<and> user_service_answers users (user_service_net users) ''/users/1''
   \<and> createOrder (httpClient_get (user_service_net users)) ''0.4fzyo82mvyr'' [] (Some laptop) =
       Inr ([\<lparr>userId = ''1'', product = ''Laptop'', quantity = 1, total = 999,
              id_Order = ''4fzyo82mvyr''\<rparr>],
            \<lparr>status = 201,
             body = JObj [(''success'', JBool True),
                          (''data'', JObj [(''id'', JStr ''4fzyo82mvyr''), (''userId'', JStr ''1''),
                                           (''product'', JStr ''Laptop''), (''quantity'', JNum 1),
                                           (''total'', JNum 999)])]\<rparr>)"
proof -
  have a: "plain_segment (userId laptop)"
    by (simp add: laptop_def plain_segment_def)
  have b: "find (\<lambda>u. id_User u = userId laptop) users =
      Some \<lparr>id_User = ''1'', name = ''John Doe'', email = ''john@example.com''\<rparr>"
    by (simp add: laptop_def users_def)
  have c: "user_service_answers users (user_service_net users) (''/users/'' @ userId laptop)"
    by (simp add: laptop_def user_service_answers_def user_service_net_def userRouter_GET_def
        plain_segment_def getUserById_controller_def users_def)
  have d: "generateId ''0.4fzyo82mvyr'' = ''4fzyo82mvyr''"
    by (simp add: generateId_take_drop)
  from createOrder_existing_user [OF a b c, of "''0.4fzyo82mvyr''" "[]"] a b c d
  show ?thesis by (simp add: laptop_def)
qed

text \<open>
  Against C3 as stated: two orders made from the same random draw get the same \<^verbatim>\<open>id\<close>.
\<close>

theorem createOrder_same_id_twice:
  "createOrder (httpClient_get (user_service_net users)) ''0.4fzyo82mvyr'' [] (Some laptop) =
     Inr ([\<lparr>userId = ''1'', product = ''Laptop'', quantity = 1, total = 999,
            id_Order = ''4fzyo82mvyr''\<rparr>],
          \<lparr>status = 201,
           body = JObj [(''success'', JBool True),
                        (''data'', JObj [(''id'', JStr ''4fzyo82mvyr''), (''userId'', JStr ''1''),
                                         (''product'', JStr ''Laptop''), (''quantity'', JNum 1),
                                         (''total'', JNum 999)])]\<rparr>)
   \<and> createOrder (httpClient_get (user_service_net users)) ''0.4fzyo82mvyr''
        [\<lparr>userId = ''1'', product = ''Laptop'', quantity = 1, total = 999,
          id_Order = ''4fzyo82mvyr''\<rparr>]
        (Some laptop) =
     Inr ([\<lparr>userId = ''1'', product = ''Laptop'', quantity = 1, total = 999,
            id_Order = ''4fzyo82mvyr''\<rparr>,
           \<lparr>userId = ''1'', product = ''Laptop'', quantity = 1, total = 999,
            id_Order = ''4fzyo82mvyr''\<rparr>],
          \<lparr>status = 201,
           body = JObj [(''success'', JBool True),
                        (''data'', JObj [(''id'', JStr ''4fzyo82mvyr''), (''userId'', JStr ''1''),
                                         (''product'', JStr ''Laptop''), (''quantity'', JNum 1),
                                         (''total'', JNum 999)])]\<rparr>)"
  by (simp add: createOrder_def createOrder_try_def seed_lookup_1 laptop_def
      generateId_take_drop Order_json_def Let_def)

section \<open>The user lookup endpoint on the seed set\<close>

text \<open>
  C4. On the seed users, the lookup endpoint answers the identifier \<open>1\<close> with John Doe's
  fields and \<open>2\<close> with Jane Smith's, each under a success indication; every other
  identifier is answered 404 with the body \<open>{success: false, error: "User not found"}\<close>,
  which has no data member.
\<close>

theorem getUserById_controller_seed:
  "getUserById_controller users ''1'' =
     Inr (users,
       \<lparr>status = 200,
        body = JObj [(''success'', JBool True),
                     (''data'', JObj [(''id'', JStr ''1''), (''name'', JStr ''John Doe''),
                                      (''email'', JStr ''john@example.com'')])]\<rparr>)
   \<and> getUserById_controller users ''2'' =
     Inr (users,
       \<lparr>status = 200,
        body = JObj [(''success'', JBool True),
                     (''data'', JObj [(''id'', JStr ''2''), (''name'', JStr ''Jane Smith''),
                                      (''email'', JStr ''jane@example.com'')])]\<rparr>)
   \<and> (i \<noteq> ''1'' \<and> i \<noteq> ''2'' \<longrightarrow>
        getUserById_controller users i =
          Inr (users,
            \<lparr>status = 404,
             body = JObj [(''success'', JBool False), (''error'', JStr ''User not found'')]\<rparr>)
        \<and> member_data (JObj [(''success'', JBool False), (''error'', JStr ''User not found'')])
            = Inr JUndefined)"
  by (simp add: getUserById_controller_def users_def User_json_def)

theorem getUserById_controller_seed_witness:
  "''3'' \<noteq> ''1'' \<and> ''3'' \<noteq> ''2''
   \<and> getUserById_controller users ''3'' =
       Inr (users,
         \<lparr>status = 404,
          body = JObj [(''success'', JBool False), (''error'', JStr ''User not found'')]\<rparr>)"
  using getUserById_controller_seed [of "''3''"] by simp

section \<open>Failures and the handler boundary\<close>

text \<open>
  C5, as amended. In the monorepo variant every failure inside \<^verbatim>\<open>createOrder\<close> is caught
  there: whatever the lookup does and whether or not the request has a body, the
  handler answers, and its answer is 404 \<open>{success: false, error: "User not found"}\<close>
  or 500 \<open>{success: false, error: "Failed to create order"}\<close> with the orders untouched,
  or 201 with the order it stored. \<^verbatim>\<open>getOrders\<close>, \<^verbatim>\<open>getUsers\<close> and the lookup endpoint
  always answer. \<^verbatim>\<open>errorHandler\<close> answers an error passed to it with 500
  \<open>{success: false, error: formatError(err)}\<close>. In the plain variant nothing is caught:
  an exception leaves \<^verbatim>\<open>getOrder\<close> exactly when its lookup is rejected, and leaves the
  user service's handler exactly when \<^verbatim>\<open>getUser\<close> is rejected.
\<close>

theorem handlers_catch_or_pass_on:
  "(createOrder http rnd orders req_body =
      Inr (orders,
           \<lparr>status = 404,
            body = JObj [(''success'', JBool False), (''error'', JStr ''User not found'')]\<rparr>)
    \<or> createOrder http rnd orders req_body =
      Inr (orders,
           \<lparr>status = 500,
            body = JObj [(''success'', JBool False),
                         (''error'', JStr ''Failed to create order'')]\<rparr>)
    \<or> (\<exists>order. createOrder http rnd orders req_body =
          Inr (orders @ [order],
               \<lparr>status = 201,
                body = JObj [(''success'', JBool True), (''data'', Order_json order)]\<rparr>)))
   \<and> (\<exists>r. getOrders orders = Inr (orders, r))
   \<and> (\<exists>r. getUsers us = Inr (us, r))
   \<and> (\<exists>r. getUserById_controller us i = Inr (us, r))
   \<and> errorHandler String_js err =
       \<lparr>status = 500,
        body = JObj [(''success'', JBool False), (''error'', JStr (formatError String_js err))]\<rparr>
   \<and> (\<exists>e. getOrder http var orderId = Inl e)
       = (\<exists>e. http (USER_SERVICE_URL var @ ''/api/users/1'') = Inl e)
   \<and> (\<exists>e. getUserById_plain_controller getUser i = Inl e) = (\<exists>e. getUser i = Inl e)"
proof -
  have "createOrder http rnd orders req_body =
      Inr (orders,
           \<lparr>status = 404,
            body = JObj [(''success'', JBool False), (''error'', JStr ''User not found'')]\<rparr>)
    \<or> createOrder http rnd orders req_body =
      Inr (orders,
           \<lparr>status = 500,
            body = JObj [(''success'', JBool False),
                         (''error'', JStr ''Failed to create order'')]\<rparr>)
    \<or> (\<exists>order. createOrder http rnd orders req_body =
          Inr (orders @ [order],
               \<lparr>status = 201,
                body = JObj [(''success'', JBool True), (''data'', Order_json order)]\<rparr>))"
    by (simp add: createOrder_def createOrder_try_def Let_def split: sum.splits option.splits)
  moreover have "\<exists>r. getUserById_controller us i = Inr (us, r)"
    by (simp add: getUserById_controller_def split: option.splits)
  moreover have "(\<exists>e. getOrder http var orderId = Inl e)
       = (\<exists>e. http (USER_SERVICE_URL var @ ''/api/users/1'') = Inl e)"
    by (simp add: getOrder_def getUserById_plain_def split: sum.splits)
  moreover have "(\<exists>e. getUserById_plain_controller getUser i = Inl e) = (\<exists>e. getUser i = Inl e)"
    by (simp add: getUserById_plain_controller_def split: sum.splits)
  ultimately show ?thesis
    by (simp add: getOrders_def getUsers_def errorHandler_def)
qed

text \<open>
  Against C5 as stated: in the plain variant a lookup that fails with a network error
  leaves \<^verbatim>\<open>getOrder\<close> as an exception; the handler sends no envelope.
\<close>

theorem getOrder_passes_network_error_on:
  "getOrder (httpClient_get net_down) None ''42'' = Inl (AxiosError ''Network Error'' None)"
  by (simp add: getOrder_def getUserById_plain_def httpClient_get_def net_down_def)

section \<open>Queries leave the state alone\<close>

text \<open>
  C6. \<^verbatim>\<open>GET /users/:id\<close>, \<^verbatim>\<open>GET /users\<close>, \<^verbatim>\<open>GET /orders\<close> and the lookup of a user, made
  any number of times in a row from any state of the two services, leave the users and
  the orders as they were, and every one of the calls returns the same result.
\<close>

theorem queries_are_pure:
  "(\<exists>r. \<forall>n. run_n n (GET_users_id i) s = Inr (s, replicate n r))
   \<and> (\<exists>r. \<forall>n. run_n n GET_users s = Inr (s, replicate n r))
   \<and> (\<exists>r. \<forall>n. run_n n GET_orders s = Inr (s, replicate n r))
   \<and> (\<exists>v. \<forall>n. run_n n (lookup i) s = Inr (s, replicate n v))"
proof -
  obtain r where "GET_users_id i s = Inr (s, r)"
    using GET_users_id_pure by blast
  then have a: "\<forall>n. run_n n (GET_users_id i) s = Inr (s, replicate n r)"
    by (simp add: run_n_pure)
  obtain r' where "GET_orders s = Inr (s, r')"
    using GET_orders_pure by blast
  then have b: "\<forall>n. run_n n GET_orders s = Inr (s, replicate n r')"
    by (simp add: run_n_pure)
  obtain v where "lookup i s = Inr (s, v)"
    using lookup_pure by blast
  then have c: "\<forall>n. run_n n (lookup i) s = Inr (s, replicate n v)"
    by (simp add: run_n_pure)
  obtain r'' where "GET_users s = Inr (s, r'')"
    using GET_users_pure by blast
  then have d: "\<forall>n. run_n n GET_users s = Inr (s, replicate n r'')"
    by (simp add: run_n_pure)
  from a b c d show ?thesis by blast
qed

section \<open>The constraints on stored orders\<close>

text \<open>
  C7, as amended. \<^verbatim>\<open>createOrder\<close> stores \<^verbatim>\<open>quantity\<close> and \<^verbatim>\<open>total\<close> as the request body
  gives them and checks neither. When the stored orders satisfy the constraints and
  the body of the request does, the orders after the call satisfy them.
\<close>

theorem createOrder_keeps_valid_orders:
  assumes "list_all order_valid orders"
    and "order_valid b"
    and "createOrder http rnd orders (Some b) = Inr (orders', r)"
  shows "list_all order_valid orders'"
  using createOrder_cases [OF assms(3)] assms(1,2)
  by (auto simp add: order_valid_def)

theorem createOrder_keeps_valid_orders_witness:
  "list_all order_valid ([] :: Order list)
   \<and> order_valid laptop
   \<and> createOrder (httpClient_get (user_service_net users)) ''0.4fzyo82mvyr'' [] (Some laptop) =
       Inr ([\<lparr>userId = ''1'', product = ''Laptop'', quantity = 1, total = 999,
              id_Order = ''4fzyo82mvyr''\<rparr>],
            \<lparr>status = 201,
             body = JObj [(''success'', JBool True),
                          (''data'', JObj [(''id'', JStr ''4fzyo82mvyr''), (''userId'', JStr ''1''),
                                           (''product'', JStr ''Laptop''), (''quantity'', JNum 1),
                                           (''total'', JNum 999)])]\<rparr>)
   \<and> list_all order_valid
        [\<lparr>userId = ''1'', product = ''Laptop'', quantity = 1, total = 999,
          id_Order = ''4fzyo82mvyr''\<rparr>]"
proof -
  have a: "list_all order_valid ([] :: Order list)"
    by simp
  have b: "order_valid laptop"
    by (simp add: order_valid_def laptop_def)
  have c: "createOrder (httpClient_get (user_service_net users)) ''0.4fzyo82mvyr'' [] (Some laptop) =
       Inr ([\<lparr>userId = ''1'', product = ''Laptop'', quantity = 1, total = 999,
              id_Order = ''4fzyo82mvyr''\<rparr>],
            \<lparr>status = 201,
             body = JObj [(''success'', JBool True),
                          (''data'', JObj [(''id'', JStr ''4fzyo82mvyr''), (''userId'', JStr ''1''),
                                           (''product'', JStr ''Laptop''), (''quantity'', JNum 1),
                                           (''total'', JNum 999)])]\<rparr>)"
    by (simp add: createOrder_def createOrder_try_def seed_lookup_1 laptop_def
        generateId_take_drop Order_json_def Let_def)
  from createOrder_keeps_valid_orders [OF a b c] a b c show ?thesis
    by simp
qed

text \<open>
  Against C7 as stated: a request with quantity 0 and total -1 for the seed user \<open>1\<close>
  is accepted, and the order it stores breaks both constraints.
\<close>

theorem createOrder_stores_invalid_order:
  "createOrder (httpClient_get (user_service_net users)) ''0.4fzyo82mvyr'' []
     (Some \<lparr>userId = ''1'', product = ''Laptop'', quantity = 0, total = - 1\<rparr>) =
     Inr ([\<lparr>userId = ''1'', product = ''Laptop'', quantity = 0, total = - 1,
            id_Order = ''4fzyo82mvyr''\<rparr>],
          \<lparr>status = 201,
           body = JObj [(''success'', JBool True),
                        (''data'', JObj [(''id'', JStr ''4fzyo82mvyr''), (''userId'', JStr ''1''),
                                         (''product'', JStr ''Laptop''), (''quantity'', JNum 0),
                                         (''total'', JNum (- 1))])]\<rparr>)
   \<and> \<not> order_valid \<lparr>userId = ''1'', product = ''Laptop'', quantity = 0, total = - 1,
                      id_Order = ''4fzyo82mvyr''\<rparr>"
  by (simp add: createOrder_def createOrder_try_def seed_lookup_1 generateId_take_drop
      Order_json_def order_valid_def Let_def)

section \<open>The lookup client of the order service\<close>

text \<open>
  C8. \<^verbatim>\<open>getUserById\<close> of the order service returns for every identifier and every
  outcome of the HTTP call, and never throws: it returns the data payload when the
  response carried one and it is truthy, and \<open>null\<close> otherwise. In particular it
  returns \<open>null\<close> on a network error, on a timeout and on a 503 reply.
\<close>

theorem getUserById_service_total:
  "getUserById_service http i =
     Inr (case data_payload (http (''/users/'' @ i)) of
            None \<Rightarrow> JNull
          | Some d \<Rightarrow> if truthy d then d else JNull)
   \<and> getUserById_service (httpClient_get net_down) i = Inr JNull
   \<and> getUserById_service (httpClient_get net_timeout) i = Inr JNull
   \<and> getUserById_service (httpClient_get net_503) i = Inr JNull"
  by (simp add: getUserById_service_def getUserById_try_def data_payload_def js_or_def
      httpClient_get_def net_down_def net_timeout_def net_503_def
      split: option.splits sum.splits jsval.splits)

section \<open>The order endpoint of the plain variant\<close>

text \<open>
  C9, as amended. \<^verbatim>\<open>getOrder\<close> of the plain variant has no order ledger to read. For
  every \<^verbatim>\<open>orderId\<close> it requests the user \<open>1\<close> and nothing else; when that lookup
  resolves, it answers 200 with the \<^verbatim>\<open>orderId\<close> of the path, the product \<open>Laptop\<close> and
  the user as received; when the lookup is rejected, the rejection leaves the handler
  and the handler sends no response.
\<close>

theorem getOrder_fixed_lookup:
  "getOrder http var orderId =
     (case http (USER_SERVICE_URL var @ ''/api/users/1'') of
        Inl e \<Rightarrow> Inl e
      | Inr response \<Rightarrow>
          Inr \<lparr>status = 200,
               body = JObj [(''orderId'', JStr orderId), (''product'', JStr ''Laptop''),
                            (''user'', body response)]\<rparr>)"
  by (simp add: getOrder_def getUserById_plain_def split: sum.splits)

text \<open>
  Against C9 as stated: when the user service replies 503 to the lookup, \<^verbatim>\<open>getOrder\<close>
  does not respond with the product \<open>Laptop\<close>; it throws.
\<close>

theorem getOrder_no_response_on_503:
  "getOrder (httpClient_get net_503) None ''42'' =
     Inl (AxiosError ''Request failed with status code 503''
            (Some \<lparr>status = 503, body = JStr ''Service Unavailable''\<rparr>))"
proof -
  have "decimal 503 = ''503''"
    by code_simp
  then show ?thesis
    by (simp add: getOrder_def getUserById_plain_def httpClient_get_def net_503_def)
qed

section \<open>Generated identifiers\<close>

text \<open>
  C10. \<^verbatim>\<open>generateId\<close> returns at most 13 characters; on the radix-36 rendering of a
  number from 0 (included) to 1 (excluded) they are all digits of radix 36. On the
  rendering \<open>0\<close> of the draw 0 it returns the empty string. Its result depends on the
  draw alone, and two different draws can give the same result.
\<close>

theorem generateId_range:
  "length (generateId rnd) \<le> 13
   \<and> (radix36_fraction rnd \<longrightarrow> list_all base36_digit (generateId rnd))
   \<and> radix36_fraction ''0'' \<and> generateId ''0'' = []
   \<and> radix36_fraction ''0.0004fzyo82mvy1'' \<and> radix36_fraction ''0.0004fzyo82mvy2''
   \<and> generateId ''0.0004fzyo82mvy1'' = generateId ''0.0004fzyo82mvy2''"
proof -
  have "list_all base36_digit (generateId rnd)" if "radix36_fraction rnd"
    using that by (auto simp add: generateId_take_drop radix36_fraction_def intro: list_all_take)
  moreover have "radix36_fraction ''0.0004fzyo82mvy1''" "radix36_fraction ''0.0004fzyo82mvy2''"
    by (simp_all add: radix36_fraction_def base36_digit_def)
  ultimately show ?thesis
    by (simp add: generateId_take_drop radix36_fraction_def)
qed

theorem generateId_range_witness:
  "radix36_fraction ''0.4fzyo82mvyr''
   \<and> length (generateId ''0.4fzyo82mvyr'') \<le> 13
   \<and> list_all base36_digit (generateId ''0.4fzyo82mvyr'')
   \<and> generateId ''0.4fzyo82mvyr'' = ''4fzyo82mvyr''"
proof -
  have a: "radix36_fraction ''0.4fzyo82mvyr''"
    by (simp add: radix36_fraction_def base36_digit_def)
  have b: "generateId ''0.4fzyo82mvyr'' = ''4fzyo82mvyr''"
    by (simp add: generateId_take_drop)
  from generateId_range [of "''0.4fzyo82mvyr''"] a b show ?thesis
    by simp
qed

end
